theory Spec2Isabelle
  imports Complex_Main
begin

section \<open>Float values of a pandas column\<close>

text \<open>
  The \<open>ind\<close> column and the returned series hold Python floats. They are modelled as
  exact real numbers extended by the three special values that numpy produces instead
  of raising: a division by zero yields an infinity or NaN, never an exception.
  Rounding, overflow to infinity and the sign of zero are not modelled: \<open>Num 0\<close> stands
  for \<open>+0.0\<close>.
\<close>

datatype fl = Num real | PInf | NInf | NaN

fun fl_neg :: "fl \<Rightarrow> fl" where
  "fl_neg (Num a) = Num (- a)"
| "fl_neg PInf = NInf"
| "fl_neg NInf = PInf"
| "fl_neg NaN = NaN"

fun fl_add :: "fl \<Rightarrow> fl \<Rightarrow> fl" where
  "fl_add NaN y = NaN"
| "fl_add x NaN = NaN"
| "fl_add (Num a) (Num b) = Num (a + b)"
| "fl_add (Num a) y = y"
| "fl_add x (Num b) = x"
| "fl_add x y = (if x = y then x else NaN)"

fun fl_mul :: "fl \<Rightarrow> fl \<Rightarrow> fl" where
  "fl_mul NaN y = NaN"
| "fl_mul x NaN = NaN"
| "fl_mul (Num a) (Num b) = Num (a * b)"
| "fl_mul (Num a) y = (if a = 0 then NaN else if a < 0 then fl_neg y else y)"
| "fl_mul x (Num b) = (if b = 0 then NaN else if b < 0 then fl_neg x else x)"
| "fl_mul x y = (if x = y then PInf else NInf)"

fun fl_div :: "fl \<Rightarrow> fl \<Rightarrow> fl" where
  "fl_div NaN y = NaN"
| "fl_div x NaN = NaN"
| "fl_div (Num a) (Num b) =
     (if b \<noteq> 0 then Num (a / b)
      else if a = 0 then NaN
      else if a < 0 then NInf else PInf)"
| "fl_div (Num a) y = Num 0"
| "fl_div x (Num b) = (if b < 0 then fl_neg x else x)"
| "fl_div x y = NaN"

definition isnull :: "fl \<Rightarrow> bool" where
  "isnull x = (x = NaN)"

fun is_finite :: "fl \<Rightarrow> bool" where
  "is_finite (Num a) = True"
| "is_finite x = False"

text \<open>\<open>Series.sum()\<close> with pandas' default \<open>skipna=True\<close>: NaN entries are left out,
  and the sum of an empty series is \<open>0.0\<close>.\<close>

definition series_sum :: "fl list \<Rightarrow> fl" where
  "series_sum xs = foldl fl_add (Num 0) (filter (\<lambda>x. \<not> isnull x) xs)"

section \<open>Times of day and the time index\<close>

text \<open>A \<open>datetime.time\<close> (naive, no time zone).\<close>

record time =
  hour :: nat
  minute :: nat
  second :: nat
  microsecond :: nat

definition settime :: "nat \<Rightarrow> nat \<Rightarrow> nat \<Rightarrow> time" where
  "settime h m s = \<lparr>hour = h, minute = m, second = s, microsecond = 0\<rparr>"

text \<open>Python compares two naive times field by field, in the order hour, minute,
  second, microsecond.\<close>

definition time_le :: "time \<Rightarrow> time \<Rightarrow> bool" where
  "time_le a b =
     (hour a < hour b \<or> (hour a = hour b \<and>
       (minute a < minute b \<or> (minute a = minute b \<and>
         (second a < second b \<or> (second a = second b \<and>
           microsecond a \<le> microsecond b))))))"

definition time_to_micros :: "time \<Rightarrow> nat" where
  "time_to_micros t =
     1000000 * (hour t * 60 * 60 + 60 * minute t + second t) + microsecond t"

text \<open>The frequency attached to a \<open>DatetimeIndex\<close>: a fixed tick of some number of
  nanoseconds (negative for a descending range), or a calendar offset such as a month
  end, whose \<open>nanos\<close> raises.\<close>

datatype offset = Tick int | NonFixed

text \<open>A naive \<open>DatetimeIndex\<close>: each stamp is the number of nanoseconds since
  1970-01-01 00:00, and \<open>freq\<close> is \<open>None\<close> when the index carries no frequency.\<close>

record DatetimeIndex =
  stamps :: "int list"
  freq :: "offset option"

definition get_time_micros :: "DatetimeIndex \<Rightarrow> nat list" where
  "get_time_micros idx = map (\<lambda>ts. nat ((ts mod 86400000000000) div 1000)) (stamps idx)"

definition nonzero :: "bool list \<Rightarrow> nat list" where
  "nonzero bmask = filter (\<lambda>i. bmask ! i) [0..<length bmask]"

text \<open>\<open>DatetimeIndex.indexer_between_time(start_time, end_time)\<close> with pandas' defaults
  \<open>include_start=True, include_end=True\<close>: the positions whose time of day lies
  between the two times, both ends included; when the start is later than the end the
  window wraps around midnight.\<close>

definition between_time :: "time \<Rightarrow> time \<Rightarrow> nat \<Rightarrow> bool" where
  "between_time start_time end_time t =
     (if time_le start_time end_time
      then time_to_micros start_time \<le> t \<and> t \<le> time_to_micros end_time
      else time_to_micros start_time \<le> t \<or> t \<le> time_to_micros end_time)"

definition indexer_between_time :: "DatetimeIndex \<Rightarrow> time \<Rightarrow> time \<Rightarrow> nat list" where
  "indexer_between_time idx start_time end_time =
     nonzero (map (between_time start_time end_time) (get_time_micros idx))"

text \<open>\<open>filter.iloc[day_mask] = True\<close> on a series of \<open>False\<close>.\<close>

definition iloc_set :: "bool list \<Rightarrow> nat list \<Rightarrow> bool list" where
  "iloc_set series positions = map (\<lambda>i. i \<in> set positions \<or> series ! i) [0..<length series]"

section \<open>The generator and its working table\<close>

text \<open>The data frame of the generator: its index, the \<open>weekday\<close> column added at
  construction and the \<open>ind\<close> column, absent until the first call of
  \<open>simple_profile\<close>.\<close>

record DataFrame =
  index :: DatetimeIndex
  weekday :: "int list"
  ind :: "fl list option"

record IndustrialLoadProfile =
  dataframe :: DataFrame

text \<open>The ISO weekday (1 = Monday .. 7 = Sunday) of a timestamp: the date is the
  number of days since 1970-01-01, a Thursday.\<close>

definition isoweekday :: "int \<Rightarrow> int" where
  "isoweekday ts = ((ts div 86400000000000) + 3) mod 7 + 1"

text \<open>
  Modelled from the spec: \<open>add_weekdays2df\<close> is imported from \<open>tools.py\<close>, which is
  not among the sources at hand. As the construction is described, each timestamp gets
  its ISO weekday; a timestamp whose date is in the holiday set gets 0; with
  \<open>holiday_is_sunday\<close> a Sunday gets 0 as well. Holidays are given as dates (day
  numbers). The result is the \<open>weekday\<close> column.
\<close>

definition add_weekdays2df :: "DatetimeIndex \<Rightarrow> bool \<Rightarrow> int list option \<Rightarrow> int list" where
  "add_weekdays2df idx holiday_is_sunday holidays =
     map (\<lambda>ts.
            if (case holidays of None \<Rightarrow> False
                | Some hs \<Rightarrow> ts div 86400000000000 \<in> set hs) then 0
            else if holiday_is_sunday \<and> isoweekday ts = 7 then 0
            else isoweekday ts) (stamps idx)"

definition init :: "DatetimeIndex \<Rightarrow> int list option \<Rightarrow> bool \<Rightarrow> IndustrialLoadProfile" where
  "init dt_index holidays holiday_is_sunday =
     \<lparr>dataframe = \<lparr>index = dt_index,
                   weekday = add_weekdays2df dt_index holiday_is_sunday holidays,
                   ind = None\<rparr>\<rparr>"

section \<open>simple\_profile\<close>

datatype error = ValueError string | KeyError string | AttributeError string

type_synonym factors = "string \<rightharpoonup> (string \<rightharpoonup> fl)"

text \<open>The keyword arguments; \<open>None\<close> is an argument the caller did not pass.\<close>

record kwargs =
  kw_am :: "time option"
  kw_pm :: "time option"
  kw_week :: "int list option"
  kw_weekend :: "int list option"
  kw_holiday :: "int list option"
  kw_profile_factors :: "factors option"

definition kwargs_get :: "'a option \<Rightarrow> 'a \<Rightarrow> 'a" where
  "kwargs_get arg dflt = (case arg of None \<Rightarrow> dflt | Some v \<Rightarrow> v)"

definition no_kwargs :: kwargs where
  "no_kwargs = \<lparr>kw_am = None, kw_pm = None, kw_week = None, kw_weekend = None,
                kw_holiday = None, kw_profile_factors = None\<rparr>"

definition default_factors :: factors where
  "default_factors =
     [''week'' \<mapsto> [''day'' \<mapsto> Num 0.8, ''night'' \<mapsto> Num 0.6],
      ''weekend'' \<mapsto> [''day'' \<mapsto> Num 0.9, ''night'' \<mapsto> Num 0.7],
      ''holiday'' \<mapsto> [''day'' \<mapsto> Num 0.9, ''night'' \<mapsto> Num 0.7]]"

definition quoted :: "string \<Rightarrow> string" where
  "quoted s = [CHR 0x27] @ s @ [CHR 0x27]"

text \<open>The validation loop over the three group keys: the first missing entry raises.\<close>

fun check_profile_factors :: "factors \<Rightarrow> string list \<Rightarrow> error option" where
  "check_profile_factors profile_factors [] = None"
| "check_profile_factors profile_factors (key # keys) =
     (case profile_factors key of
        None \<Rightarrow> Some (ValueError (''Missing entry for '' @ quoted key @ '' in profile_factors.''))
      | Some sub \<Rightarrow>
          if sub ''day'' = None
          then Some (ValueError (''Missing entry for '' @ quoted ''day''
                                 @ '' in profile_factors for '' @ quoted key @ ''.''))
          else if sub ''night'' = None
          then Some (ValueError (''Missing entry for '' @ quoted ''night''
                                 @ '' in profile_factors for '' @ quoted key @ ''.''))
          else check_profile_factors profile_factors keys)"

text \<open>\<open>profile_factors[key][sub]\<close>; a missing key raises \<open>KeyError\<close>.\<close>

definition getitem2 :: "factors \<Rightarrow> string \<Rightarrow> string \<Rightarrow> error + fl" where
  "getitem2 profile_factors key sub =
     (case profile_factors key of
        None \<Rightarrow> Inl (KeyError key)
      | Some d \<Rightarrow> (case d sub of None \<Rightarrow> Inl (KeyError sub) | Some v \<Rightarrow> Inr v))"

definition isin :: "int list \<Rightarrow> int list \<Rightarrow> bool list" where
  "isin column values = map (\<lambda>w. w \<in> set values) column"

definition band :: "bool list \<Rightarrow> bool list \<Rightarrow> bool list" where
  "band a b = map2 (\<lambda>x y. x \<and> y) a b"

text \<open>\<open>dataframe.loc[rows, "ind"] = value\<close>: the rows selected by the boolean series are
  overwritten. The value is looked up first; if the lookup raises, the column is as the
  statements before left it.\<close>

definition loc_assign :: "bool list \<Rightarrow> error + fl \<Rightarrow> fl list \<Rightarrow> (error \<times> fl list) + fl list" where
  "loc_assign bmask value col =
     (case value of
        Inl e \<Rightarrow> Inl (e, col)
      | Inr v \<Rightarrow> Inr (map2 (\<lambda>m x. if m then v else x) bmask col))"

text \<open>One statement after another: a statement that raised ends the sequence.\<close>

definition and_then :: "'e + 'a \<Rightarrow> ('a \<Rightarrow> 'e + 'b) \<Rightarrow> 'e + 'b" where
  "and_then outcome rest = (case outcome of Inr col \<Rightarrow> rest col | Inl raised \<Rightarrow> Inl raised)"

definition nanos :: "offset \<Rightarrow> error + int" where
  "nanos off = (case off of Tick n \<Rightarrow> Inr n
                | NonFixed \<Rightarrow> Inl (ValueError ''non-fixed frequency''))"

text \<open>The six masked assignments, in the order of the source.\<close>

definition assign_factors ::
  "DataFrame \<Rightarrow> time \<Rightarrow> time \<Rightarrow> int list \<Rightarrow> int list \<Rightarrow> int list \<Rightarrow> factors
     \<Rightarrow> (error \<times> fl list) + fl list" where
  "assign_factors df am pm week weekend holiday profile_factors =
     (let n = length (stamps (index df));
          ind0 = replicate n (Num 0);
          day_mask = indexer_between_time (index df) am pm;
          night_mask = indexer_between_time (index df) pm am;
          day_filter = iloc_set (replicate n False) day_mask;
          night_filter = iloc_set (replicate n False) night_mask;
          week_filter = isin (weekday df) week;
          weekend_filter = isin (weekday df) weekend;
          holiday_filter = isin (weekday df) holiday
      in
      and_then (loc_assign (band day_filter week_filter)
              (getitem2 profile_factors ''week'' ''day'') ind0) (\<lambda>ind1.
      and_then (loc_assign (band night_filter week_filter)
              (getitem2 profile_factors ''week'' ''night'') ind1) (\<lambda>ind2.
      and_then (loc_assign (band day_filter weekend_filter)
              (getitem2 profile_factors ''weekend'' ''day'') ind2) (\<lambda>ind3.
      and_then (loc_assign (band night_filter weekend_filter)
              (getitem2 profile_factors ''weekend'' ''night'') ind3) (\<lambda>ind4.
      and_then (loc_assign (band day_filter holiday_filter)
              (getitem2 profile_factors ''holiday'' ''day'') ind4) (\<lambda>ind5.
      loc_assign (band night_filter holiday_filter)
              (getitem2 profile_factors ''holiday'' ''night'') ind5))))))"

text \<open>The keyword arguments with their defaults, as the first lines of
  \<open>simple_profile\<close> read them.\<close>

definition arg_am :: "kwargs \<Rightarrow> time" where
  "arg_am kwargs = kwargs_get (kw_am kwargs) (settime 7 0 0)"

definition arg_pm :: "kwargs \<Rightarrow> time" where
  "arg_pm kwargs = kwargs_get (kw_pm kwargs) (settime 23 30 0)"

definition arg_week :: "kwargs \<Rightarrow> int list" where
  "arg_week kwargs = kwargs_get (kw_week kwargs) [1, 2, 3, 4, 5]"

definition arg_weekend :: "kwargs \<Rightarrow> int list" where
  "arg_weekend kwargs = kwargs_get (kw_weekend kwargs) [6, 7]"

definition arg_holiday :: "kwargs \<Rightarrow> int list" where
  "arg_holiday kwargs = kwargs_get (kw_holiday kwargs) [0]"

definition arg_profile_factors :: "kwargs \<Rightarrow> factors" where
  "arg_profile_factors kwargs = kwargs_get (kw_profile_factors kwargs) default_factors"

text \<open>The \<open>ind\<close> column as the assignments leave it: the raw profile.\<close>

definition raw_profile :: "IndustrialLoadProfile \<Rightarrow> kwargs \<Rightarrow> (error \<times> fl list) + fl list" where
  "raw_profile self kwargs =
     assign_factors (dataframe self) (arg_am kwargs) (arg_pm kwargs) (arg_week kwargs)
       (arg_weekend kwargs) (arg_holiday kwargs) (arg_profile_factors kwargs)"

text \<open>\<open>index.freq.nanos / 3.6e12\<close>: the sampling interval in hours.\<close>

definition time_interval :: "int \<Rightarrow> fl" where
  "time_interval ns = Num (real_of_int ns / 3600000000000)"

text \<open>
  \<open>simple_profile\<close> returns the outcome (an error or the series), the generator as the
  call leaves it, and the lines it logged.
\<close>

definition simple_profile ::
  "IndustrialLoadProfile \<Rightarrow> fl \<Rightarrow> kwargs
     \<Rightarrow> (error + fl list) \<times> IndustrialLoadProfile \<times> string list" where
  "simple_profile self annual_demand kwargs =
     (case check_profile_factors (arg_profile_factors kwargs)
             [''week'', ''weekend'', ''holiday''] of
        Some e \<Rightarrow> (Inl e, self, [])
      | None \<Rightarrow>
         (case raw_profile self kwargs of
            Inl (e, col) \<Rightarrow> (Inl e, \<lparr>dataframe = (dataframe self)\<lparr>ind := Some col\<rparr>\<rparr>, [])
          | Inr col \<Rightarrow>
             (let self' = \<lparr>dataframe = (dataframe self)\<lparr>ind := Some col\<rparr>\<rparr>;
                  log = (if list_ex isnull col
                         then [''NAN value found in industrial load profile''] else [])
              in
              case freq (index (dataframe self)) of
                None \<Rightarrow> (Inl (AttributeError ''nanos''), self', log)
              | Some off \<Rightarrow>
                 (case nanos off of
                    Inl e \<Rightarrow> (Inl e, self', log)
                  | Inr ns \<Rightarrow>
                     (Inr (map (\<lambda>x. fl_div (fl_mul (fl_div x (series_sum col))
                                                annual_demand) (time_interval ns)) col),
                      self', log)))))"

text \<open>A sequence of calls on the same generator; each call is given by its annual
  demand and keyword arguments, and the generator is threaded through.\<close>

fun run_calls :: "IndustrialLoadProfile \<Rightarrow> (fl \<times> kwargs) list \<Rightarrow> IndustrialLoadProfile" where
  "run_calls self [] = self"
| "run_calls self ((annual_demand, kwargs) # calls) =
     run_calls (fst (snd (simple_profile self annual_demand kwargs))) calls"

section \<open>Notions used by the properties\<close>

text \<open>All six entries of \<open>profile_factors\<close> are present: each of the three groups,
  each with its \<open>day\<close> and \<open>night\<close> factor.\<close>

definition complete_factors :: "factors \<Rightarrow> bool" where
  "complete_factors profile_factors =
     list_all (\<lambda>key. case profile_factors key of
                       None \<Rightarrow> False
                     | Some sub \<Rightarrow> sub ''day'' \<noteq> None \<and> sub ''night'' \<noteq> None)
       [''week'', ''weekend'', ''holiday'']"

text \<open>The groups whose set contains a weekday label, in the order in which the
  assignments visit them.\<close>

definition matching_groups :: "kwargs \<Rightarrow> int \<Rightarrow> string list" where
  "matching_groups kwargs w =
     map fst (filter (\<lambda>(name, days). w \<in> set days)
       [(''week'', arg_week kwargs), (''weekend'', arg_weekend kwargs),
        (''holiday'', arg_holiday kwargs)])"

text \<open>Last writer wins: the factor of the last matching group, its night factor when
  the night window matches, its day factor when only the day window does; \<open>0.0\<close>
  when no group or no window matches.\<close>

definition last_writer :: "factors \<Rightarrow> string list \<Rightarrow> bool \<Rightarrow> bool \<Rightarrow> error + fl" where
  "last_writer profile_factors groups in_day in_night =
     (if groups = [] \<or> \<not> (in_day \<or> in_night) then Inr (Num 0)
      else getitem2 profile_factors (last groups) (if in_night then ''night'' else ''day''))"

text \<open>The value the six assignments leave in one row, given the six factors, the
  row's time of day in microseconds and its weekday label: the assignments are read
  from the last to the first, since a later one overwrites an earlier one.\<close>

definition row_value ::
  "time \<Rightarrow> time \<Rightarrow> int list \<Rightarrow> int list \<Rightarrow> int list \<Rightarrow> fl \<Rightarrow> fl \<Rightarrow> fl \<Rightarrow> fl \<Rightarrow> fl \<Rightarrow> fl \<Rightarrow> nat \<Rightarrow> int \<Rightarrow> fl" where
  "row_value am pm week weekend holiday wkd wkn wed wen hod hon t w =
     (let d = between_time am pm t; n = between_time pm am t in
      if n \<and> w \<in> set holiday then hon
      else if d \<and> w \<in> set holiday then hod
      else if n \<and> w \<in> set weekend then wen
      else if d \<and> w \<in> set weekend then wed
      else if n \<and> w \<in> set week then wkn
      else if d \<and> w \<in> set week then wkd
      else Num 0)"

section \<open>Example inputs\<close>

text \<open>Monday 1970-01-05 at 06:30, 07:00 and 07:30, sampled every 30 minutes, and the
  generator built over it without holidays.\<close>

definition monday_morning :: DatetimeIndex where
  "monday_morning = \<lparr>stamps = [369000000000000, 370800000000000, 372600000000000],
                      freq = Some (Tick 1800000000000)\<rparr>"

definition monday_generator :: IndustrialLoadProfile where
  "monday_generator = init monday_morning None False"

text \<open>Monday 1970-01-05 and Tuesday 1970-01-06 at noon, sampled daily.\<close>

definition two_days :: DatetimeIndex where
  "two_days = \<lparr>stamps = [388800000000000, 475200000000000],
                freq = Some (Tick 86400000000000)\<rparr>"

definition two_days_generator :: IndustrialLoadProfile where
  "two_days_generator = init two_days None False"

definition empty_generator :: IndustrialLoadProfile where
  "empty_generator = init \<lparr>stamps = [], freq = Some (Tick 1800000000000)\<rparr> None False"

text \<open>All six factors 0.0.\<close>

definition zero_factors :: factors where
  "zero_factors =
     [''week'' \<mapsto> [''day'' \<mapsto> Num 0, ''night'' \<mapsto> Num 0],
      ''weekend'' \<mapsto> [''day'' \<mapsto> Num 0, ''night'' \<mapsto> Num 0],
      ''holiday'' \<mapsto> [''day'' \<mapsto> Num 0, ''night'' \<mapsto> Num 0]]"

text \<open>The default factors without the \<open>night\<close> entry of \<open>weekend\<close>.\<close>

definition no_weekend_night :: factors where
  "no_weekend_night =
     [''week'' \<mapsto> [''day'' \<mapsto> Num 0.8, ''night'' \<mapsto> Num 0.6],
      ''weekend'' \<mapsto> [''day'' \<mapsto> Num 0.9],
      ''holiday'' \<mapsto> [''day'' \<mapsto> Num 0.9, ''night'' \<mapsto> Num 0.7]]"

text \<open>The default factors with NaN as the day factor of \<open>week\<close>.\<close>

definition nan_week_day :: factors where
  "nan_week_day =
     [''week'' \<mapsto> [''day'' \<mapsto> NaN, ''night'' \<mapsto> Num 0.6],
      ''weekend'' \<mapsto> [''day'' \<mapsto> Num 0.9, ''night'' \<mapsto> Num 0.7],
      ''holiday'' \<mapsto> [''day'' \<mapsto> Num 0.9, ''night'' \<mapsto> Num 0.7]]"

definition with_factors :: "factors \<Rightarrow> kwargs" where
  "with_factors profile_factors = no_kwargs\<lparr>kw_profile_factors := Some profile_factors\<rparr>"

text \<open>Only Monday counts as a week day: Tuesday is in no group.\<close>

definition monday_only :: kwargs where
  "monday_only = no_kwargs\<lparr>kw_week := Some [1]\<rparr>"

text \<open>Monday is listed both as a week day and as a weekend day.\<close>

definition monday_twice :: kwargs where
  "monday_twice = no_kwargs\<lparr>kw_weekend := Some [1, 6, 7]\<rparr>"

section \<open>Auxiliary facts\<close>

subsection \<open>Masks and windows\<close>

lemma set_nonzero: "set (nonzero m) = {i. i < length m \<and> m ! i}"
  by (auto simp: nonzero_def)

lemma iloc_set_nonzero: "iloc_set (replicate (length m) False) (nonzero m) = m"
  by (rule nth_equalityI) (auto simp: iloc_set_def set_nonzero)

lemma filter_between:
  "n = length (stamps idx) \<Longrightarrow>
   iloc_set (replicate n False) (indexer_between_time idx a b)
     = map (between_time a b) (get_time_micros idx)"
  using iloc_set_nonzero [of "map (between_time a b) (get_time_micros idx)"]
  by (simp add: indexer_between_time_def get_time_micros_def)

lemma mem_indexer:
  "i \<in> set (indexer_between_time idx a b) \<longleftrightarrow>
     i < length (stamps idx) \<and> between_time a b (get_time_micros idx ! i)"
  by (auto simp: indexer_between_time_def set_nonzero get_time_micros_def)

subsection \<open>Validation\<close>

lemma check_complete:
  "check_profile_factors pf [''week'', ''weekend'', ''holiday''] = None \<longleftrightarrow> complete_factors pf"
  by (auto simp: complete_factors_def split: option.splits)

lemma check_error:
  "check_profile_factors pf keys = Some e \<Longrightarrow> \<exists>msg. e = ValueError msg"
  by (induction keys) (auto split: option.splits if_splits)

lemma complete_getitem2:
  assumes "complete_factors pf" "key \<in> {''week'', ''weekend'', ''holiday''}" "sub \<in> {''day'', ''night''}"
  shows "\<exists>v. getitem2 pf key sub = Inr v"
  using assms by (auto simp: complete_factors_def getitem2_def split: option.splits)

subsection \<open>The raw profile, row by row\<close>

lemma assign_factors_rows:
  assumes "getitem2 pf ''week'' ''day'' = Inr wkd" "getitem2 pf ''week'' ''night'' = Inr wkn"
    "getitem2 pf ''weekend'' ''day'' = Inr wed" "getitem2 pf ''weekend'' ''night'' = Inr wen"
    "getitem2 pf ''holiday'' ''day'' = Inr hod" "getitem2 pf ''holiday'' ''night'' = Inr hon"
  shows "assign_factors df am pm week weekend holiday pf
     = Inr (map2 (row_value am pm week weekend holiday wkd wkn wed wen hod hon)
              (get_time_micros (index df)) (weekday df))"
proof -
  have len: "length (get_time_micros (index df)) = length (stamps (index df))"
    by (simp add: get_time_micros_def)
  show ?thesis
    unfolding assign_factors_def Let_def assms filter_between [OF refl]
      and_then_def loc_assign_def band_def isin_def sum.case
    apply (simp only: sum.inject)
    apply (rule nth_equalityI)
     apply (simp add: len)
    apply (simp add: len row_value_def Let_def)
    done
qed

subsection \<open>Sums of float columns\<close>





subsection \<open>Outcomes of simple\_profile\<close>

lemma raw_profile_rows:
  assumes "complete_factors (arg_profile_factors kw)"
  shows "\<exists>wkd wkn wed wen hod hon.
     getitem2 (arg_profile_factors kw) ''week'' ''day'' = Inr wkd \<and>
     getitem2 (arg_profile_factors kw) ''week'' ''night'' = Inr wkn \<and>
     getitem2 (arg_profile_factors kw) ''weekend'' ''day'' = Inr wed \<and>
     getitem2 (arg_profile_factors kw) ''weekend'' ''night'' = Inr wen \<and>
     getitem2 (arg_profile_factors kw) ''holiday'' ''day'' = Inr hod \<and>
     getitem2 (arg_profile_factors kw) ''holiday'' ''night'' = Inr hon \<and>
     raw_profile self kw =
       Inr (map2 (row_value (arg_am kw) (arg_pm kw) (arg_week kw) (arg_weekend kw)
                   (arg_holiday kw) wkd wkn wed wen hod hon)
              (get_time_micros (index (dataframe self))) (weekday (dataframe self)))"
proof -
  let ?pf = "arg_profile_factors kw"
  obtain wkd where 1: "getitem2 ?pf ''week'' ''day'' = Inr wkd"
    using complete_getitem2 [OF assms, of "''week''" "''day''"] by auto
  obtain wkn where 2: "getitem2 ?pf ''week'' ''night'' = Inr wkn"
    using complete_getitem2 [OF assms, of "''week''" "''night''"] by auto
  obtain wed where 3: "getitem2 ?pf ''weekend'' ''day'' = Inr wed"
    using complete_getitem2 [OF assms, of "''weekend''" "''day''"] by auto
  obtain wen where 4: "getitem2 ?pf ''weekend'' ''night'' = Inr wen"
    using complete_getitem2 [OF assms, of "''weekend''" "''night''"] by auto
  obtain hod where 5: "getitem2 ?pf ''holiday'' ''day'' = Inr hod"
    using complete_getitem2 [OF assms, of "''holiday''" "''day''"] by auto
  obtain hon where 6: "getitem2 ?pf ''holiday'' ''night'' = Inr hon"
    using complete_getitem2 [OF assms, of "''holiday''" "''night''"] by auto
  show ?thesis
    using 1 2 3 4 5 6 assign_factors_rows [OF 1 2 3 4 5 6]
    by (simp add: raw_profile_def)
qed

lemma simple_profile_invalid:
  assumes "\<not> complete_factors (arg_profile_factors kw)"
  shows "\<exists>msg. simple_profile self A kw = (Inl (ValueError msg), self, [])"
proof -
  from assms obtain e where
    e: "check_profile_factors (arg_profile_factors kw) [''week'', ''weekend'', ''holiday''] = Some e"
    using check_complete by fastforce
  then obtain msg where "e = ValueError msg" using check_error by blast
  with e show ?thesis by (simp add: simple_profile_def)
qed

lemma simple_profile_tick:
  assumes "complete_factors (arg_profile_factors kw)"
    and "raw_profile self kw = Inr raw"
    and "freq (index (dataframe self)) = Some (Tick ns)"
  shows "simple_profile self A kw =
     (Inr (map (\<lambda>x. fl_div (fl_mul (fl_div x (series_sum raw)) A) (time_interval ns)) raw),
      \<lparr>dataframe = (dataframe self)\<lparr>ind := Some raw\<rparr>\<rparr>,
      if list_ex isnull raw then [''NAN value found in industrial load profile''] else [])"
  using assms check_complete [of "arg_profile_factors kw"]
  by (simp add: simple_profile_def nanos_def Let_def)

lemma raw_profile_cong:
  assumes "index (dataframe s1) = index (dataframe s2)"
    and "weekday (dataframe s1) = weekday (dataframe s2)"
  shows "raw_profile s1 kw = raw_profile s2 kw"
  using assms by (simp add: raw_profile_def assign_factors_def)

lemma simple_profile_frame:
  "index (dataframe (fst (snd (simple_profile self A kw)))) = index (dataframe self) \<and>
   weekday (dataframe (fst (snd (simple_profile self A kw)))) = weekday (dataframe self)"
  by (simp add: simple_profile_def Let_def split: option.splits sum.splits prod.splits)

lemma run_calls_frame:
  "index (dataframe (run_calls self calls)) = index (dataframe self) \<and>
   weekday (dataframe (run_calls self calls)) = weekday (dataframe self)"
proof (induction calls arbitrary: self)
  case Nil
  show ?case by simp
next
  case (Cons c calls)
  obtain A kw where c: "c = (A, kw)" by (cases c)
  show ?case using Cons.IH [of "fst (snd (simple_profile self A kw))"]
    by (simp add: c simple_profile_frame)
qed

lemma simple_profile_cong:
  assumes "index (dataframe s1) = index (dataframe s2)"
    and "weekday (dataframe s1) = weekday (dataframe s2)"
  shows "fst (simple_profile s1 A kw) = fst (simple_profile s2 A kw) \<and>
         snd (snd (simple_profile s1 A kw)) = snd (snd (simple_profile s2 A kw))"
  using assms raw_profile_cong [OF assms, of kw]
  by (simp add: simple_profile_def Let_def split: option.splits sum.splits prod.splits)

lemma raw_profile_complete:
  "raw_profile self kw = Inr raw \<Longrightarrow> complete_factors (arg_profile_factors kw)"
  by (auto simp: raw_profile_def assign_factors_def and_then_def loc_assign_def Let_def
        complete_factors_def getitem2_def split: sum.splits option.splits)

subsection \<open>Further facts about single rows and values\<close>

lemma not_finite_normalised:
  "\<not> is_finite (fl_div (fl_mul (fl_div x (Num 0)) A) (Num t))"
  by (cases x; cases A) (simp_all)

lemma matching_groups_cases:
  "matching_groups kw w =
     (if w \<in> set (arg_week kw) then [''week''] else []) @
     (if w \<in> set (arg_weekend kw) then [''weekend''] else []) @
     (if w \<in> set (arg_holiday kw) then [''holiday''] else [])"
  by (simp add: matching_groups_def)

lemma row_value_cases:
  "row_value am pm week weekend holiday wkd wkn wed wen hod hon t w
     \<in> {wkd, wkn, wed, wen, hod, hon, Num 0}"
  by (simp add: row_value_def Let_def)

lemma row_value_unmatched:
  "w \<notin> set week \<Longrightarrow> w \<notin> set weekend \<Longrightarrow> w \<notin> set holiday \<Longrightarrow>
   row_value am pm week weekend holiday wkd wkn wed wen hod hon t w = Num 0"
  by (simp add: row_value_def Let_def)

lemma simple_profile_log:
  assumes "raw_profile self kw = Inr raw"
  shows "snd (snd (simple_profile self A kw)) =
           (if list_ex isnull raw then [''NAN value found in industrial load profile''] else [])
         \<and> ind (dataframe (fst (snd (simple_profile self A kw)))) = Some raw"
  using assms check_complete [of "arg_profile_factors kw"] raw_profile_complete [OF assms]
  by (simp add: simple_profile_def Let_def split: option.splits sum.splits)

subsection \<open>Evaluating the definitions on concrete inputs\<close>

lemmas eval_defs =
  monday_generator_def monday_morning_def init_def add_weekdays2df_def isoweekday_def
  simple_profile_def raw_profile_def assign_factors_def
  indexer_between_time_def get_time_micros_def nonzero_def iloc_set_def isin_def band_def
  loc_assign_def and_then_def getitem2_def nanos_def time_interval_def series_sum_def isnull_def
  arg_profile_factors_def arg_am_def arg_pm_def arg_week_def arg_weekend_def arg_holiday_def
  no_kwargs_def kwargs_get_def default_factors_def quoted_def
  between_time_def time_le_def time_to_micros_def settime_def upt_rec Let_def

lemmas example_defs =
  two_days_generator_def two_days_def empty_generator_def zero_factors_def
  no_weekend_night_def nan_week_day_def with_factors_def monday_only_def monday_twice_def

section \<open>Properties of simple\_profile\<close>



text \<open>
  The claim C2 says that a zero raw sum raises an error. It does not: with all six
  factors 0.0 the call returns a series of NaN, and on an empty index it returns the
  empty series.
\<close>

theorem degenerate_counterexample:
  "fst (simple_profile monday_generator (Num 1) (with_factors zero_factors)) = Inr [NaN, NaN, NaN]
   \<and> fst (simple_profile empty_generator (Num 1) no_kwargs) = Inr []"
  by (simp add: eval_defs example_defs)

text \<open>
  C2 (degenerate profile, as the code behaves). When the raw profile sums to zero on an
  index with a fixed tick frequency, \<open>simple_profile\<close> raises nothing: it returns a
  series with one entry per raw value, and no entry is a finite number (each is NaN or
  an infinity), whatever the annual demand.
\<close>

theorem degenerate_returns_non_finite:
  assumes "raw_profile self kw = Inr raw"
    and "series_sum raw = Num 0"
    and "freq (index (dataframe self)) = Some (Tick ns)"
  shows "\<exists>out. fst (simple_profile self A kw) = Inr out
     \<and> length out = length raw \<and> list_all (\<lambda>x. \<not> is_finite x) out"
  using simple_profile_tick [OF raw_profile_complete [OF assms(1)] assms(1,3), of A] assms(2)
  by (simp add: time_interval_def list_all_iff not_finite_normalised)

theorem degenerate_returns_non_finite_witness:
  "raw_profile monday_generator (with_factors zero_factors) = Inr [Num 0, Num 0, Num 0]
   \<and> series_sum [Num 0, Num 0, Num 0] = Num 0
   \<and> (\<exists>out. fst (simple_profile monday_generator (Num 1) (with_factors zero_factors)) = Inr out
        \<and> length out = 3 \<and> list_all (\<lambda>x. \<not> is_finite x) out)"
proof -
  have r: "raw_profile monday_generator (with_factors zero_factors) = Inr [Num 0, Num 0, Num 0]"
    by (simp add: eval_defs example_defs)
  have s: "series_sum [Num 0, Num 0, Num 0] = Num 0"
    by (simp add: series_sum_def isnull_def)
  have f: "freq (index (dataframe monday_generator)) = Some (Tick 1800000000000)"
    by (simp add: monday_generator_def init_def monday_morning_def)
  show ?thesis
    using degenerate_returns_non_finite [OF r s f, of "Num 1"] r s
    by (simp add: numeral_3_eq_3)
qed

text \<open>
  C3 (validation). When the \<open>profile_factors\<close> passed by the caller lack one of the
  groups \<open>week\<close>, \<open>weekend\<close>, \<open>holiday\<close>, or a present group lacks \<open>day\<close> or \<open>night\<close>,
  \<open>simple_profile\<close> raises a \<open>ValueError\<close> (the configuration error of the description);
  the generator is returned as it was and nothing is logged, since the check runs
  before the \<open>ind\<close> column is touched.
\<close>

theorem missing_entry_raises:
  assumes "kw_profile_factors kw = Some pf"
    and "key \<in> {''week'', ''weekend'', ''holiday''}"
    and "pf key = None \<or> (\<exists>sub. pf key = Some sub \<and> (sub ''day'' = None \<or> sub ''night'' = None))"
  shows "\<exists>msg. simple_profile self A kw = (Inl (ValueError msg), self, [])"
proof -
  have "arg_profile_factors kw = pf"
    using assms(1) by (simp add: arg_profile_factors_def kwargs_get_def)
  moreover have "\<not> complete_factors pf"
    using assms(2,3) by (auto simp: complete_factors_def)
  ultimately show ?thesis using simple_profile_invalid [of kw self A] by simp
qed

theorem missing_entry_raises_witness:
  "kw_profile_factors (with_factors no_weekend_night) = Some no_weekend_night
   \<and> (\<exists>sub. no_weekend_night ''weekend'' = Some sub \<and> sub ''night'' = None)
   \<and> (\<exists>msg. simple_profile monday_generator (Num 1) (with_factors no_weekend_night)
               = (Inl (ValueError msg), monday_generator, []))"
proof -
  have k: "kw_profile_factors (with_factors no_weekend_night) = Some no_weekend_night"
    by (simp add: with_factors_def no_kwargs_def)
  have m: "\<exists>sub. no_weekend_night ''weekend'' = Some sub \<and> sub ''night'' = None"
    by (simp add: no_weekend_night_def)
  have "\<exists>msg. simple_profile monday_generator (Num 1) (with_factors no_weekend_night)
               = (Inl (ValueError msg), monday_generator, [])"
    using m by (intro missing_entry_raises [OF k, of "''weekend''"]) auto
  with k m show ?thesis by blast
qed



text \<open>
  C8 (frame). After any sequence of \<open>simple_profile\<close> calls on a generator, the
  \<open>weekday\<close> column and the index of its data frame are what they were before the
  calls, in particular what the construction made them; only \<open>ind\<close> is written.
\<close>

theorem weekday_column_unchanged:
  "weekday (dataframe (run_calls self calls)) = weekday (dataframe self)
   \<and> index (dataframe (run_calls self calls)) = index (dataframe self)"
  using run_calls_frame [of self calls] by simp

theorem weekday_column_unchanged_witness:
  "weekday (dataframe (run_calls monday_generator
       [(Num 7, no_kwargs), (Num 1, with_factors zero_factors), (Num 2, monday_twice)])) = [1, 1, 1]
   \<and> ind (dataframe (run_calls monday_generator
       [(Num 7, no_kwargs), (Num 1, with_factors zero_factors), (Num 2, monday_twice)])) \<noteq> ind (dataframe monday_generator)"
proof -
  have w: "weekday (dataframe monday_generator) = [1, 1, 1]"
    by (simp add: eval_defs)
  have "ind (dataframe (run_calls monday_generator
       [(Num 7, no_kwargs), (Num 1, with_factors zero_factors), (Num 2, monday_twice)])) \<noteq> ind (dataframe monday_generator)"
    by (simp add: eval_defs example_defs)
  then show ?thesis
    using weekday_column_unchanged [of monday_generator
       "[(Num 7, no_kwargs), (Num 1, with_factors zero_factors), (Num 2, monday_twice)]"] w
    by simp
qed

text \<open>
  C9 (history independence). The outcome of a call and the lines it logs are the same
  whatever calls were made on the generator before: they depend on the index, the
  \<open>weekday\<close> column and the arguments only, the \<open>ind\<close> column being rebuilt from 0.0 in
  every call. Being a function of these, equal arguments give equal series.
\<close>

theorem history_independent:
  "fst (simple_profile (run_calls self calls) A kw) = fst (simple_profile self A kw)
   \<and> snd (snd (simple_profile (run_calls self calls) A kw)) = snd (snd (simple_profile self A kw))"
  using simple_profile_cong [of "run_calls self calls" self A kw] run_calls_frame [of self calls]
  by simp

theorem history_independent_witness:
  "fst (simple_profile (run_calls monday_generator
          [(Num 1, with_factors zero_factors), (Num 2, monday_twice)]) (Num 7) no_kwargs)
     = Inr [Num 4.2, Num 4.2, Num 5.6]"
proof -
  have "fst (simple_profile monday_generator (Num 7) no_kwargs) = Inr [Num 4.2, Num 4.2, Num 5.6]"
    by (simp add: eval_defs)
  then show ?thesis
    using history_independent [of monday_generator
       "[(Num 1, with_factors zero_factors), (Num 2, monday_twice)]" "Num 7" no_kwargs]
    by simp
qed

text \<open>
  C10 (last writer wins). In every row of the raw profile the value is the factor of the
  last group, in the order week, weekend, holiday, whose set contains the row's weekday
  label; of that group it is the night factor when the night window contains the row,
  also when the day window contains it too, and the day factor when only the day window
  does. With no matching group or window the value is 0.0.
\<close>

theorem last_writer_wins:
  assumes "raw_profile self kw = Inr raw" and "i < length raw"
  shows "Inr (raw ! i) =
     last_writer (arg_profile_factors kw)
       (matching_groups kw (weekday (dataframe self) ! i))
       (i \<in> set (indexer_between_time (index (dataframe self)) (arg_am kw) (arg_pm kw)))
       (i \<in> set (indexer_between_time (index (dataframe self)) (arg_pm kw) (arg_am kw)))"
proof -
  from raw_profile_rows [OF raw_profile_complete [OF assms(1)], of self]
  obtain wkd wkn wed wen hod hon where
    g: "getitem2 (arg_profile_factors kw) ''week'' ''day'' = Inr wkd"
       "getitem2 (arg_profile_factors kw) ''week'' ''night'' = Inr wkn"
       "getitem2 (arg_profile_factors kw) ''weekend'' ''day'' = Inr wed"
       "getitem2 (arg_profile_factors kw) ''weekend'' ''night'' = Inr wen"
       "getitem2 (arg_profile_factors kw) ''holiday'' ''day'' = Inr hod"
       "getitem2 (arg_profile_factors kw) ''holiday'' ''night'' = Inr hon"
    and r: "raw_profile self kw =
       Inr (map2 (row_value (arg_am kw) (arg_pm kw) (arg_week kw) (arg_weekend kw)
                   (arg_holiday kw) wkd wkn wed wen hod hon)
              (get_time_micros (index (dataframe self))) (weekday (dataframe self)))"
    by blast
  from r assms(1) have raw: "raw = map2 (row_value (arg_am kw) (arg_pm kw) (arg_week kw)
      (arg_weekend kw) (arg_holiday kw) wkd wkn wed wen hod hon)
      (get_time_micros (index (dataframe self))) (weekday (dataframe self))"
    by simp
  have len: "length (get_time_micros (index (dataframe self))) = length (stamps (index (dataframe self)))"
    by (simp add: get_time_micros_def)
  from assms(2) raw len have i: "i < length (stamps (index (dataframe self)))"
    "i < length (weekday (dataframe self))" by simp_all
  have v: "raw ! i = row_value (arg_am kw) (arg_pm kw) (arg_week kw)
      (arg_weekend kw) (arg_holiday kw) wkd wkn wed wen hod hon
      (get_time_micros (index (dataframe self)) ! i) (weekday (dataframe self) ! i)"
    using i len by (simp add: raw)
  show ?thesis
    unfolding v mem_indexer last_writer_def matching_groups_cases row_value_def Let_def
    using i g by simp
qed

theorem last_writer_wins_witness:
  "raw_profile monday_generator monday_twice = Inr [Num 0.7, Num 0.7, Num 0.9]
   \<and> matching_groups monday_twice (weekday (dataframe monday_generator) ! 1) = [''week'', ''weekend'']
   \<and> 1 \<in> set (indexer_between_time (index (dataframe monday_generator))
                 (arg_am monday_twice) (arg_pm monday_twice))
   \<and> 1 \<in> set (indexer_between_time (index (dataframe monday_generator))
                 (arg_pm monday_twice) (arg_am monday_twice))
   \<and> last_writer (arg_profile_factors monday_twice) [''week'', ''weekend''] True True = Inr (Num 0.7)"
proof -
  have r: "raw_profile monday_generator monday_twice = Inr [Num 0.7, Num 0.7, Num 0.9]"
    by (simp add: eval_defs example_defs)
  have m: "matching_groups monday_twice (weekday (dataframe monday_generator) ! 1) = [''week'', ''weekend'']"
    by (simp add: matching_groups_def eval_defs example_defs)
  have d: "1 \<in> set (indexer_between_time (index (dataframe monday_generator))
                 (arg_am monday_twice) (arg_pm monday_twice))"
    by (simp add: eval_defs example_defs)
  have n: "1 \<in> set (indexer_between_time (index (dataframe monday_generator))
                 (arg_pm monday_twice) (arg_am monday_twice))"
    by (simp add: eval_defs example_defs)
  show ?thesis
    using last_writer_wins [OF r, of 1] r m d n by simp
qed

text \<open>
  The claim C7 says that a timestamp whose weekday label is in none of the group sets
  triggers the logged error, and that no error is logged when every timestamp is
  classified. Neither holds: with Monday as the only week day, Tuesday noon is in no
  group and nothing is logged; with NaN as the day factor of \<open>week\<close> every timestamp is
  classified and the error is logged.
\<close>

theorem unclassified_counterexample:
  "matching_groups monday_only (weekday (dataframe two_days_generator) ! 1) = []
   \<and> snd (snd (simple_profile two_days_generator (Num 1) monday_only)) = []
   \<and> matching_groups (with_factors nan_week_day) (weekday (dataframe two_days_generator) ! 0) = [''week'']
   \<and> matching_groups (with_factors nan_week_day) (weekday (dataframe two_days_generator) ! 1) = [''week'']
   \<and> snd (snd (simple_profile two_days_generator (Num 1) (with_factors nan_week_day)))
        = [''NAN value found in industrial load profile'']"
  by (simp add: matching_groups_def eval_defs example_defs)

text \<open>
  C7 (diagnostic, as the code behaves). The error line is logged exactly when some raw
  value is NaN, and the raw profile is stored in \<open>ind\<close>. A row whose weekday label is
  in none of the group sets has the raw value 0.0; when no profile factor is NaN,
  nothing is logged, classified or not; and on an index with a fixed tick frequency the
  call returns a series, so an unclassified row raises nothing.
\<close>

theorem nan_diagnostic:
  assumes "raw_profile self kw = Inr raw"
  shows "snd (snd (simple_profile self A kw)) =
           (if list_ex isnull raw then [''NAN value found in industrial load profile''] else [])
     \<and> ind (dataframe (fst (snd (simple_profile self A kw)))) = Some raw
     \<and> (\<forall>i<length raw. matching_groups kw (weekday (dataframe self) ! i) = [] \<longrightarrow> raw ! i = Num 0)
     \<and> ((\<forall>key sub. getitem2 (arg_profile_factors kw) key sub \<noteq> Inr NaN)
          \<longrightarrow> snd (snd (simple_profile self A kw)) = [])
     \<and> ((\<exists>ns. freq (index (dataframe self)) = Some (Tick ns))
          \<longrightarrow> (\<exists>out. fst (simple_profile self A kw) = Inr out))"
proof -
  from raw_profile_rows [OF raw_profile_complete [OF assms], of self]
  obtain wkd wkn wed wen hod hon where
    g: "getitem2 (arg_profile_factors kw) ''week'' ''day'' = Inr wkd"
       "getitem2 (arg_profile_factors kw) ''week'' ''night'' = Inr wkn"
       "getitem2 (arg_profile_factors kw) ''weekend'' ''day'' = Inr wed"
       "getitem2 (arg_profile_factors kw) ''weekend'' ''night'' = Inr wen"
       "getitem2 (arg_profile_factors kw) ''holiday'' ''day'' = Inr hod"
       "getitem2 (arg_profile_factors kw) ''holiday'' ''night'' = Inr hon"
    and r: "raw_profile self kw =
       Inr (map2 (row_value (arg_am kw) (arg_pm kw) (arg_week kw) (arg_weekend kw)
                   (arg_holiday kw) wkd wkn wed wen hod hon)
              (get_time_micros (index (dataframe self))) (weekday (dataframe self)))"
    by blast
  let ?f = "row_value (arg_am kw) (arg_pm kw) (arg_week kw) (arg_weekend kw)
                   (arg_holiday kw) wkd wkn wed wen hod hon"
  from r assms have raw: "raw = map2 ?f
      (get_time_micros (index (dataframe self))) (weekday (dataframe self))"
    by simp
  have zero: "raw ! i = Num 0"
    if "i < length raw" "matching_groups kw (weekday (dataframe self) ! i) = []" for i
  proof -
    from that(2) have "weekday (dataframe self) ! i \<notin> set (arg_week kw)"
      "weekday (dataframe self) ! i \<notin> set (arg_weekend kw)"
      "weekday (dataframe self) ! i \<notin> set (arg_holiday kw)"
      by (auto simp: matching_groups_cases split: if_splits)
    then show ?thesis using that(1) by (simp add: raw row_value_unmatched)
  qed
  have among: "set raw \<subseteq> {wkd, wkn, wed, wen, hod, hon, Num 0}"
    using row_value_cases [of "arg_am kw" "arg_pm kw" "arg_week kw" "arg_weekend kw"
        "arg_holiday kw" wkd wkn wed wen hod hon]
    by (auto simp: raw)
  have quiet: "\<not> list_ex isnull raw"
    if "\<forall>key sub. getitem2 (arg_profile_factors kw) key sub \<noteq> Inr NaN"
  proof -
    from that g have "NaN \<notin> {wkd, wkn, wed, wen, hod, hon, Num 0}" by auto
    with among show ?thesis by (auto simp: list_ex_iff isnull_def)
  qed
  have ok: "\<exists>out. fst (simple_profile self A kw) = Inr out"
    if "freq (index (dataframe self)) = Some (Tick ns)" for ns
    using simple_profile_tick [OF raw_profile_complete [OF assms] assms that, of A] by simp
  show ?thesis
    using simple_profile_log [OF assms, of A] zero quiet ok by auto
qed

theorem nan_diagnostic_witness:
  "raw_profile two_days_generator monday_only = Inr [Num 0.8, Num 0]
   \<and> matching_groups monday_only (weekday (dataframe two_days_generator) ! 1) = []
   \<and> snd (snd (simple_profile two_days_generator (Num 24) monday_only)) = []
   \<and> ind (dataframe (fst (snd (simple_profile two_days_generator (Num 24) monday_only))))
        = Some [Num 0.8, Num 0]
   \<and> (\<exists>out. fst (simple_profile two_days_generator (Num 24) monday_only) = Inr out)"
proof -
  have r: "raw_profile two_days_generator monday_only = Inr [Num 0.8, Num 0]"
    by (simp add: eval_defs example_defs)
  have m: "matching_groups monday_only (weekday (dataframe two_days_generator) ! 1) = []"
    by (simp add: matching_groups_def eval_defs example_defs)
  have f: "freq (index (dataframe two_days_generator)) = Some (Tick 86400000000000)"
    by (simp add: eval_defs example_defs)
  have n: "\<not> list_ex isnull [Num 0.8, Num 0]"
    by (simp add: isnull_def)
  show ?thesis
    using nan_diagnostic [OF r, of "Num 24"] r m f n by simp
qed

text \<open>
  C4 (day window), evaluated at its boundary. With the default arguments, on Monday
  morning sampled every 30 minutes, the second timestamp is 07:00, exactly \<open>am\<close>. Its raw
  value is the night factor of \<open>week\<close>, 0.6, not the day factor 0.8: both windows
  include both of their ends, and the night assignment is the later one.
\<close>

theorem am_boundary_gets_night_factor:
  "get_time_micros (index (dataframe monday_generator)) ! 1 = time_to_micros (arg_am no_kwargs)
   \<and> raw_profile monday_generator no_kwargs = Inr [Num 0.6, Num 0.6, Num 0.8]
   \<and> getitem2 (arg_profile_factors no_kwargs) ''week'' ''day'' = Inr (Num 0.8)
   \<and> getitem2 (arg_profile_factors no_kwargs) ''week'' ''night'' = Inr (Num 0.6)"
  by (simp add: eval_defs)

text \<open>
  C5 (coverage), evaluated at the same boundary. With the default arguments the
  timestamp at 07:00 on Monday is selected by the day window and by the night window,
  and its label is a week day: it is in two of the six buckets.
\<close>

theorem am_boundary_in_two_buckets:
  "1 \<in> set (indexer_between_time (index (dataframe monday_generator))
              (arg_am no_kwargs) (arg_pm no_kwargs))
   \<and> 1 \<in> set (indexer_between_time (index (dataframe monday_generator))
              (arg_pm no_kwargs) (arg_am no_kwargs))
   \<and> weekday (dataframe monday_generator) ! 1 \<in> set (arg_week no_kwargs)"
  by (simp add: eval_defs)

end
